theory Spec2Isabelle
  imports Main "HOL-Library.AList"
begin

section \<open>Python values, dictionaries and exceptions\<close>

text \<open>
  The two modules pass Python dictionaries around whose values are strings, booleans,
  \<open>None\<close>, lists and nested dictionaries. A dictionary is an association list:
  a lookup reads the first binding of a key, an assignment replaces it or appends a new
  one, a \<open>pop\<close> removes the key.
\<close>

datatype val =
    Str string
  | Bool bool
  | NoneV
  | Lst "val list"
  | Dict "(string \<times> val) list"

type_synonym dict = "(string \<times> val) list"

text \<open>Every exception the code raises, or lets through from a collaborator, is a value.\<close>

datatype error =
    KeyError string
  | TypeError
  | Unauthorized string
  | RoleAssignmentNotFound val val val
  | ApplicationCredentialNotFound val
  | RoleNotFound val
  | UserNotFound string
  | DomainNotFound string
  | NotImplemented
  | Failure string

text \<open>
  A computation takes the state, returns the state it left behind and either the exception
  it raised or its result. A raise keeps the effects that happened before it.
\<close>

type_synonym ('a, 's) comp = "'s \<Rightarrow> (error + 'a) \<times> 's"

definition ret :: "'a \<Rightarrow> ('a, 's) comp" where
  "ret x s = (Inr x, s)"

definition raise :: "error \<Rightarrow> ('a, 's) comp" where
  "raise e s = (Inl e, s)"

definition seq :: "('a, 's) comp \<Rightarrow> ('a \<Rightarrow> ('b, 's) comp) \<Rightarrow> ('b, 's) comp" where
  "seq m f s = (case m s of (Inl e, s') \<Rightarrow> (Inl e, s') | (Inr x, s') \<Rightarrow> f x s')"

definition lift :: "error + 'a \<Rightarrow> ('a, 's) comp" where
  "lift r s = (r, s)"

text \<open>\<open>d[k]\<close> on a dictionary value: \<open>KeyError\<close> when the key is missing.\<close>

definition dict_getitem :: "dict \<Rightarrow> string \<Rightarrow> error + val" where
  "dict_getitem d k = (case map_of d k of None \<Rightarrow> Inl (KeyError k) | Some v \<Rightarrow> Inr v)"

text \<open>\<open>v[k]\<close> on any value: only a dictionary can be subscripted by a string key.\<close>

fun val_getitem :: "val \<Rightarrow> string \<Rightarrow> error + val" where
  "val_getitem (Dict d) k = dict_getitem d k"
| "val_getitem _ k = Inl TypeError"

text \<open>\<open>for x in v\<close>: a list yields its elements, a string its characters, a dictionary
  its keys; \<open>None\<close> and booleans are not iterable.\<close>

fun py_iter :: "val \<Rightarrow> error + val list" where
  "py_iter (Lst xs) = Inr xs"
| "py_iter (Str s) = Inr (map (\<lambda>c. Str [c]) s)"
| "py_iter (Dict d) = Inr (map Str (remdups (map fst d)))"
| "py_iter _ = Inl TypeError"

section \<open>External authentication plugins (keystone/auth/plugins/external.py)\<close>

text \<open>The attributes of the request that the plugins read; each is a string or \<open>None\<close>.\<close>

record request =
  remote_user :: "string option"
  remote_domain :: "string option"
  auth_type :: "string option"

text \<open>\<open>not x\<close> for a string or \<open>None\<close>: true for \<open>None\<close> and for the empty string.\<close>

fun falsy :: "string option \<Rightarrow> bool" where
  "falsy None = True"
| "falsy (Some s) = (s = [])"

text \<open>\<open>x or ''\<close>.\<close>

fun or_empty :: "string option \<Rightarrow> string" where
  "or_empty None = []"
| "or_empty (Some s) = s"

text \<open>\<open>'...%s' % x\<close>: \<open>None\<close> is formatted as the text \<open>None\<close>.\<close>

fun fmt_s :: "string option \<Rightarrow> string" where
  "fmt_s None = ''None''"
| "fmt_s (Some s) = s"

text \<open>\<open>str.lower()\<close> on the characters of a byte string: the letters A to Z are mapped
  to a to z, every other character is kept.\<close>

definition lower_char :: "char \<Rightarrow> char" where
  "lower_char c =
     (case map_of (zip ''ABCDEFGHIJKLMNOPQRSTUVWXYZ'' ''abcdefghijklmnopqrstuvwxyz'') c of
        None \<Rightarrow> c
      | Some l \<Rightarrow> l)"

definition lower :: "string \<Rightarrow> string" where
  "lower s = map lower_char s"

text \<open>
  The identity and resource backends and the configuration are collaborators of the
  plugins: \<open>get_user_by_name\<close> and \<open>get_domain_by_name\<close> return a reference
  dictionary or raise; \<open>default_domain_id\<close> is \<open>CONF.identity.default_domain_id\<close> and
  \<open>token_bind\<close> is \<open>CONF.token.bind\<close>.
\<close>

record auth_env =
  get_user_by_name :: "string option \<Rightarrow> val \<Rightarrow> error + dict"
  get_domain_by_name :: "string option \<Rightarrow> error + dict"
  default_domain_id :: string
  token_bind :: "string list"

text \<open>The state of the plugins is the log of backend lookups made so far, oldest first.\<close>

datatype lookup =
    UserLookup "string option" val
  | DomainLookup "string option"

type_synonym lookups = "lookup list"

definition identity_get_user_by_name ::
    "auth_env \<Rightarrow> string option \<Rightarrow> val \<Rightarrow> (dict, lookups) comp" where
  "identity_get_user_by_name env name domain_id t =
     (get_user_by_name env name domain_id, t @ [UserLookup name domain_id])"

definition resource_get_domain_by_name ::
    "auth_env \<Rightarrow> string option \<Rightarrow> (dict, lookups) comp" where
  "resource_get_domain_by_name env name t =
     (get_domain_by_name env name, t @ [DomainLookup name])"

text \<open>\<open>AuthHandlerResponse(status, response_body, response_data)\<close>.\<close>

record auth_handler_response =
  status :: bool
  response_body :: val
  response_data :: dict

text \<open>\<open>DefaultDomain._authenticate\<close>.\<close>

definition DefaultDomain_authenticate :: "auth_env \<Rightarrow> request \<Rightarrow> (dict, lookups) comp" where
  "DefaultDomain_authenticate env req =
     identity_get_user_by_name env (remote_user req) (Str (default_domain_id env))"

text \<open>\<open>Domain._authenticate\<close>.\<close>

definition Domain_authenticate :: "auth_env \<Rightarrow> request \<Rightarrow> (dict, lookups) comp" where
  "Domain_authenticate env req =
     seq (if \<not> falsy (remote_domain req)
          then seq (resource_get_domain_by_name env (remote_domain req))
                 (\<lambda>ref. lift (dict_getitem ref ''id''))
          else ret (Str (default_domain_id env)))
       (\<lambda>domain_id. identity_get_user_by_name env (remote_user req) domain_id)"

text \<open>\<open>KerberosDomain._authenticate\<close>.\<close>

definition KerberosDomain_authenticate :: "auth_env \<Rightarrow> request \<Rightarrow> (dict, lookups) comp" where
  "KerberosDomain_authenticate env req =
     (if auth_type req \<noteq> Some ''Negotiate''
      then raise (Unauthorized ''auth_type is not Negotiate'')
      else Domain_authenticate env req)"

text \<open>
  \<open>Base.authenticate\<close>, with the variant's \<open>_authenticate\<close> as the parameter
  \<open>resolve\<close>. The \<open>try\<close> block catches every exception of the resolution and raises
  \<open>Unauthorized\<close> in its place.
\<close>

definition Base_authenticate ::
    "auth_env \<Rightarrow> (request \<Rightarrow> (dict, lookups) comp) \<Rightarrow> request
      \<Rightarrow> (auth_handler_response, lookups) comp" where
  "Base_authenticate env resolve req =
     (if falsy (remote_user req) then raise (Unauthorized ''No authenticated user'')
      else
        (\<lambda>t. case resolve req t of
               (Inl e, t') \<Rightarrow>
                 (Inl (Unauthorized (''Unable to lookup user '' @ fmt_s (remote_user req))), t')
             | (Inr user_ref, t') \<Rightarrow>
                 seq (lift (dict_getitem user_ref ''id''))
                   (\<lambda>uid.
                      let response_data = [(''user_id'', uid)];
                          auth_type = lower (or_empty (auth_type req))
                      in if ''kerberos'' \<in> set (token_bind env) \<and> auth_type = ''negotiate''
                         then seq (lift (dict_getitem user_ref ''name''))
                                (\<lambda>name. ret \<lparr>status = True, response_body = NoneV,
                                     response_data = AList.update ''bind''
                                       (Dict [(''kerberos'', name)]) response_data\<rparr>)
                         else ret \<lparr>status = True, response_body = NoneV,
                                response_data = response_data\<rparr>) t'))"

section \<open>The application credential manager (keystone/application_credential/core.py)\<close>

subsection \<open>The store of dictionary objects\<close>

text \<open>
  The manager copies dictionaries and then changes the copies in place, so the embedding
  keeps the dictionaries that the program can reach in a store: a reference is an index
  into the list of objects, \<open>copy()\<close> appends a new object, an assignment or a
  \<open>pop\<close> rewrites the object at its index. The values inside a dictionary (strings,
  role lists) are never changed in place by the manager and are kept as values.
  A reference held by the program always points into the store.
\<close>

type_synonym addr = nat
type_synonym heap = "dict list"

text \<open>What the manager asked of its collaborators, oldest request first.\<close>

datatype hints = Hints "val list"

datatype event =
    ListRoleAssignments val val
  | DriverAuthenticate val val
  | DriverCreate dict val
  | DriverGet val
  | DriverList val hints
  | DriverDelete val
  | DriverDeleteForUser val
  | DriverDeleteForUserOnProject val val
  | CacheInvalidate "val list"
  | AuditCreated string val val
  | AuditDeleted string val val

text \<open>
  The state that the manager works on: the store, the driver's own state, the table of
  memoized results and the log of requests.
\<close>

record 'd world =
  heap :: heap
  driver_state :: 'd
  memo :: "(val list \<times> dict) list"
  trace :: "event list"

definition copy_dict :: "addr \<Rightarrow> (addr, 'd world) comp" where
  "copy_dict a s = (Inr (length (heap s)), s\<lparr>heap := heap s @ [heap s ! a]\<rparr>)"

definition getitem :: "addr \<Rightarrow> string \<Rightarrow> (val, 'd world) comp" where
  "getitem a k s = (dict_getitem (heap s ! a) k, s)"

definition setitem :: "addr \<Rightarrow> string \<Rightarrow> val \<Rightarrow> (unit, 'd world) comp" where
  "setitem a k v s = (Inr (), s\<lparr>heap := (heap s)[a := AList.update k v (heap s ! a)]\<rparr>)"

definition pop :: "addr \<Rightarrow> string \<Rightarrow> (val, 'd world) comp" where
  "pop a k s =
     (case map_of (heap s ! a) k of
        None \<Rightarrow> (Inl (KeyError k), s)
      | Some v \<Rightarrow> (Inr v, s\<lparr>heap := (heap s)[a := AList.delete k (heap s ! a)]\<rparr>))"

definition pop_default :: "addr \<Rightarrow> string \<Rightarrow> val \<Rightarrow> (val, 'd world) comp" where
  "pop_default a k dflt s =
     (case map_of (heap s ! a) k of
        None \<Rightarrow> (Inr dflt, s)
      | Some v \<Rightarrow> (Inr v, s\<lparr>heap := (heap s)[a := AList.delete k (heap s ! a)]\<rparr>))"

subsection \<open>Collaborators\<close>

text \<open>
  The driver contract of \<open>backends/base.py\<close>: seven operations, each of which may
  raise. The driver is injected, so it is a parameter, with a state of its own. It is
  handed the contents of the dictionary it is passed, and a record that it returns becomes
  a new object of the store: a driver is taken not to change its arguments in place and
  not to keep a reference to what it returns.
\<close>

record 'd driver =
  drv_authenticate :: "val \<Rightarrow> val \<Rightarrow> (unit, 'd) comp"
  drv_create_application_credential :: "dict \<Rightarrow> val \<Rightarrow> (dict, 'd) comp"
  drv_get_application_credential :: "val \<Rightarrow> (dict, 'd) comp"
  drv_list_application_credentials_for_user :: "val \<Rightarrow> hints \<Rightarrow> (dict list, 'd) comp"
  drv_delete_application_credential :: "val \<Rightarrow> (unit, 'd) comp"
  drv_delete_application_credentials_for_user :: "val \<Rightarrow> (unit, 'd) comp"
  drv_delete_application_credentials_for_user_on_project :: "val \<Rightarrow> val \<Rightarrow> (unit, 'd) comp"

text \<open>A role assignment as \<open>assignment_api.list_role_assignments\<close> returns it.\<close>

record assignment =
  assignment_user_id :: val
  assignment_project_id :: val
  assignment_role_id :: val

text \<open>
  The other collaborators: \<open>list_role_assignments\<close> is the effective assignments of a
  user on a project, \<open>get_role\<close> is \<open>PROVIDERS.role_api.get_role\<close>, and
  \<open>INVALIDATE_USER_PROJECT_TOKEN_PERSISTENCE\<close> is the constant of that name in
  \<open>keystone.notifications\<close>.
\<close>

record 'd env =
  driver :: "'d driver"
  list_role_assignments :: "val \<Rightarrow> val \<Rightarrow> assignment list"
  get_role :: "val \<Rightarrow> error + val"
  INVALIDATE_USER_PROJECT_TOKEN_PERSISTENCE :: string

text \<open>A call of a driver operation: the request is logged, the operation runs.\<close>

definition call_driver :: "event \<Rightarrow> ('a, 'd) comp \<Rightarrow> ('a, 'd world) comp" where
  "call_driver ev f s =
     (case f (driver_state s) of
        (r, d') \<Rightarrow> (r, s\<lparr>driver_state := d', trace := trace s @ [ev]\<rparr>))"

text \<open>A dictionary that comes back from a collaborator is a new object.\<close>

definition new_dict :: "dict \<Rightarrow> (addr, 'd world) comp" where
  "new_dict d s = (Inr (length (heap s)), s\<lparr>heap := heap s @ [d]\<rparr>)"

fun new_dicts :: "dict list \<Rightarrow> (addr list, 'd world) comp" where
  "new_dicts [] = ret []"
| "new_dicts (d # ds) = seq (new_dict d) (\<lambda>a. seq (new_dicts ds) (\<lambda>as. ret (a # as)))"

text \<open>\<open>notifications.Audit.created\<close> and \<open>notifications.Audit.deleted\<close>.\<close>

definition Audit_created :: "string \<Rightarrow> val \<Rightarrow> val \<Rightarrow> (unit, 'd world) comp" where
  "Audit_created resource_type resource_id initiator s =
     (Inr (), s\<lparr>trace := trace s @ [AuditCreated resource_type resource_id initiator]\<rparr>)"

definition Audit_deleted :: "string \<Rightarrow> val \<Rightarrow> val \<Rightarrow> (unit, 'd world) comp" where
  "Audit_deleted resource_type resource_id initiator s =
     (Inr (), s\<lparr>trace := trace s @ [AuditDeleted resource_type resource_id initiator]\<rparr>)"

text \<open>
  Modelled from the spec: the read-through cache behind the \<open>MEMOIZE\<close> decorator
  (\<open>keystone.common.cache\<close> is not among the sources). A memoized call looks its
  arguments up in the table; on a miss it runs the function and stores the result it
  returned, and an exception is not stored. \<open>invalidate\<close> removes the entry whose key
  is built from the arguments that \<open>invalidate\<close> itself is called with.
\<close>

definition memoize :: "val list \<Rightarrow> (addr, 'd world) comp \<Rightarrow> (addr, 'd world) comp" where
  "memoize key f s =
     (case map_of (memo s) key of
        Some cached \<Rightarrow> new_dict cached s
      | None \<Rightarrow>
          (case f s of
             (Inl e, s') \<Rightarrow> (Inl e, s')
           | (Inr a, s') \<Rightarrow> (Inr a, s'\<lparr>memo := AList.update key (heap s' ! a) (memo s')\<rparr>)))"

definition memo_invalidate :: "val list \<Rightarrow> (unit, 'd world) comp" where
  "memo_invalidate key s =
     (Inr (), s\<lparr>memo := AList.delete key (memo s), trace := trace s @ [CacheInvalidate key]\<rparr>)"

subsection \<open>The manager\<close>

definition APP_CRED :: string where
  "APP_CRED = ''application_credential''"

text \<open>\<open>_get_user_roles\<close>: the role ids of the effective assignments, without
  duplicates. Python leaves the order of \<open>list(set(...))\<close> open; only membership in
  the result is ever used.\<close>

definition get_user_roles :: "'d env \<Rightarrow> val \<Rightarrow> val \<Rightarrow> (val list, 'd world) comp" where
  "get_user_roles env user_id project_id s =
     (let assignment_list = list_role_assignments env user_id project_id
      in (Inr (remdups (map assignment_role_id assignment_list)),
          s\<lparr>trace := trace s @ [ListRoleAssignments user_id project_id]\<rparr>))"

text \<open>The comprehension \<open>[x for x in user_roles if x == role['id']]\<close>: \<open>role['id']\<close>
  is evaluated once for every element of \<open>user_roles\<close>, so not at all for an empty
  list.\<close>

definition matching_roles :: "val list \<Rightarrow> val \<Rightarrow> error + val list" where
  "matching_roles user_roles role =
     (if user_roles = [] then Inr []
      else case val_getitem role ''id'' of
             Inl e \<Rightarrow> Inl e
           | Inr rid \<Rightarrow> Inr (filter (\<lambda>x. x = rid) user_roles))"

text \<open>The loop of \<open>_require_user_has_role_in_project\<close>.\<close>

fun require_roles :: "val list \<Rightarrow> val list \<Rightarrow> val \<Rightarrow> val \<Rightarrow> error + unit" where
  "require_roles user_roles [] user_id project_id = Inr ()"
| "require_roles user_roles (role # roles) user_id project_id =
     (case matching_roles user_roles role of
        Inl e \<Rightarrow> Inl e
      | Inr matching \<Rightarrow>
          if matching = []
          then (case val_getitem role ''id'' of
                  Inl e \<Rightarrow> Inl e
                | Inr rid \<Rightarrow> Inl (RoleAssignmentNotFound rid user_id project_id))
          else require_roles user_roles roles user_id project_id)"

definition require_user_has_role_in_project ::
    "'d env \<Rightarrow> val \<Rightarrow> val \<Rightarrow> val \<Rightarrow> (unit, 'd world) comp" where
  "require_user_has_role_in_project env roles user_id project_id =
     seq (get_user_roles env user_id project_id) (\<lambda>user_roles.
     seq (lift (py_iter roles)) (\<lambda>role_list.
     lift (require_roles user_roles role_list user_id project_id)))"

text \<open>The loop of \<open>_get_role_list\<close>, with the list built so far.\<close>

fun get_role_list_loop :: "'d env \<Rightarrow> val list \<Rightarrow> val list \<Rightarrow> error + val list" where
  "get_role_list_loop env [] roles = Inr roles"
| "get_role_list_loop env (role # rest) roles =
     (case val_getitem role ''id'' of
        Inl e \<Rightarrow> Inl e
      | Inr rid \<Rightarrow>
          (case get_role env rid of
             Inl e \<Rightarrow> Inl e
           | Inr r \<Rightarrow> get_role_list_loop env rest (roles @ [r])))"

definition get_role_list :: "'d env \<Rightarrow> val \<Rightarrow> error + val list" where
  "get_role_list env app_cred_roles =
     (case py_iter app_cred_roles of
        Inl e \<Rightarrow> Inl e
      | Inr role_list \<Rightarrow> get_role_list_loop env role_list [])"

text \<open>A role reference expands to a role object when the role API returns that object
  for the id of the reference.\<close>

definition expands_to :: "'d env \<Rightarrow> val \<Rightarrow> val \<Rightarrow> bool" where
  "expands_to env role obj =
     (case val_getitem role ''id'' of
        Inl e \<Rightarrow> False
      | Inr rid \<Rightarrow> get_role env rid = Inr obj)"

text \<open>\<open>Manager.authenticate\<close>.\<close>

definition Manager_authenticate :: "'d env \<Rightarrow> val \<Rightarrow> val \<Rightarrow> (unit, 'd world) comp" where
  "Manager_authenticate env application_credential_id secret =
     call_driver (DriverAuthenticate application_credential_id secret)
       (drv_authenticate (driver env) application_credential_id secret)"

text \<open>\<open>_process_app_cred\<close>. In the last assignment the right-hand side is evaluated
  before the store.\<close>

definition process_app_cred :: "'d env \<Rightarrow> addr \<Rightarrow> (addr, 'd world) comp" where
  "process_app_cred env app_cred_ref0 =
     seq (copy_dict app_cred_ref0) (\<lambda>app_cred_ref.
     seq (pop app_cred_ref ''secret_hash'') (\<lambda>_.
     seq (getitem app_cred_ref ''roles'') (\<lambda>app_cred_roles.
     seq (lift (get_role_list env app_cred_roles)) (\<lambda>roles.
     seq (setitem app_cred_ref ''roles'' (Lst roles)) (\<lambda>_.
     ret app_cred_ref)))))"

text \<open>\<open>create_application_credential\<close>.\<close>

definition create_application_credential ::
    "'d env \<Rightarrow> addr \<Rightarrow> val \<Rightarrow> (addr, 'd world) comp" where
  "create_application_credential env application_credential0 initiator =
     seq (copy_dict application_credential0) (\<lambda>application_credential.
     seq (getitem application_credential ''user_id'') (\<lambda>user_id.
     seq (getitem application_credential ''project_id'') (\<lambda>project_id.
     seq (pop_default application_credential ''roles'' (Lst [])) (\<lambda>roles.
     seq (require_user_has_role_in_project env roles user_id project_id) (\<lambda>_.
     seq (getitem application_credential ''secret'') (\<lambda>unhashed_secret.
     seq (\<lambda>s. call_driver (DriverCreate (heap s ! application_credential) roles)
               (drv_create_application_credential (driver env)
                  (heap s ! application_credential) roles) s) (\<lambda>stored.
     seq (new_dict stored) (\<lambda>ref0.
     seq (setitem ref0 ''secret'' unhashed_secret) (\<lambda>_.
     seq (process_app_cred env ref0) (\<lambda>ref.
     seq (getitem application_credential ''id'') (\<lambda>app_cred_id.
     seq (Audit_created APP_CRED app_cred_id initiator) (\<lambda>_.
     ret ref))))))))))))"

text \<open>\<open>get_application_credential\<close>: the body, and the memoized method.\<close>

definition get_application_credential_body :: "'d env \<Rightarrow> val \<Rightarrow> (addr, 'd world) comp" where
  "get_application_credential_body env application_credential_id =
     seq (call_driver (DriverGet application_credential_id)
            (drv_get_application_credential (driver env) application_credential_id)) (\<lambda>stored.
     seq (new_dict stored) (\<lambda>app_cred.
     process_app_cred env app_cred))"

definition get_application_credential :: "'d env \<Rightarrow> val \<Rightarrow> (addr, 'd world) comp" where
  "get_application_credential env application_credential_id =
     memoize [application_credential_id]
       (get_application_credential_body env application_credential_id)"

text \<open>The list comprehension of \<open>list_application_credentials\<close>.\<close>

fun process_all :: "'d env \<Rightarrow> addr list \<Rightarrow> (addr list, 'd world) comp" where
  "process_all env [] = ret []"
| "process_all env (app_cred # rest) =
     seq (process_app_cred env app_cred) (\<lambda>r.
     seq (process_all env rest) (\<lambda>rs. ret (r # rs)))"

text \<open>\<open>list_application_credentials\<close>; \<open>hints or driver_hints.Hints()\<close> replaces a
  missing \<open>hints\<close> by an empty one.\<close>

definition list_application_credentials ::
    "'d env \<Rightarrow> val \<Rightarrow> hints option \<Rightarrow> (addr list, 'd world) comp" where
  "list_application_credentials env user_id hints0 =
     (let hints = (case hints0 of None \<Rightarrow> Hints [] | Some h \<Rightarrow> h)
      in seq (call_driver (DriverList user_id hints)
                (drv_list_application_credentials_for_user (driver env) user_id hints))
             (\<lambda>stored.
           seq (new_dicts stored) (\<lambda>app_cred_list.
           process_all env app_cred_list)))"

text \<open>\<open>delete_application_credential\<close>. \<open>invalidate\<close> is called with no argument.\<close>

definition delete_application_credential :: "'d env \<Rightarrow> val \<Rightarrow> val \<Rightarrow> (unit, 'd world) comp" where
  "delete_application_credential env application_credential_id initiator =
     seq (memo_invalidate []) (\<lambda>_.
     seq (call_driver (DriverDelete application_credential_id)
            (drv_delete_application_credential (driver env) application_credential_id)) (\<lambda>_.
     Audit_deleted APP_CRED application_credential_id initiator))"

definition delete_application_credentials_for_user :: "'d env \<Rightarrow> val \<Rightarrow> (unit, 'd world) comp" where
  "delete_application_credentials_for_user env user_id =
     call_driver (DriverDeleteForUser user_id)
       (drv_delete_application_credentials_for_user (driver env) user_id)"

definition delete_application_credentials_for_user_on_project ::
    "'d env \<Rightarrow> val \<Rightarrow> val \<Rightarrow> (unit, 'd world) comp" where
  "delete_application_credentials_for_user_on_project env user_id project_id =
     call_driver (DriverDeleteForUserOnProject user_id project_id)
       (drv_delete_application_credentials_for_user_on_project (driver env) user_id project_id)"

subsection \<open>Event callbacks\<close>

text \<open>The names of \<open>notifications.ACTIONS\<close> that the manager subscribes to.\<close>

datatype action = ACTIONS_deleted | ACTIONS_disabled | ACTIONS_internal

text \<open>A callback receives \<open>(service, resource_type, operation, payload)\<close>.\<close>

type_synonym 'd callback = "string \<Rightarrow> string \<Rightarrow> action \<Rightarrow> dict \<Rightarrow> (unit, 'd world) comp"

definition delete_app_creds_on_user_delete_callback :: "'d env \<Rightarrow> 'd callback" where
  "delete_app_creds_on_user_delete_callback env service resource_type operation payload =
     seq (lift (dict_getitem payload ''resource_info'')) (\<lambda>user_id.
     delete_application_credentials_for_user env user_id)"

definition delete_app_creds_on_assignment_removal :: "'d env \<Rightarrow> 'd callback" where
  "delete_app_creds_on_assignment_removal env service resource_type operation payload =
     seq (lift (dict_getitem payload ''resource_info'')) (\<lambda>info.
     seq (lift (val_getitem info ''user_id'')) (\<lambda>user_id.
     seq (lift (dict_getitem payload ''resource_info'')) (\<lambda>info'.
     seq (lift (val_getitem info' ''project_id'')) (\<lambda>project_id.
     delete_application_credentials_for_user_on_project env user_id project_id))))"

text \<open>
  Modelled from the spec: the event bus (\<open>keystone.notifications\<close> is not among the
  sources). \<open>register_event_callback\<close> subscribes a callback to an event name and a
  resource type; \<open>notify_event_callbacks\<close> delivers an event to the callbacks
  subscribed to it, in the order of subscription, and a callback that raises ends the
  delivery with its exception.
\<close>

type_synonym 'd listeners = "(action \<times> string \<times> 'd callback) list"

definition register_event_callback ::
    "action \<Rightarrow> string \<Rightarrow> 'd callback \<Rightarrow> 'd listeners \<Rightarrow> 'd listeners" where
  "register_event_callback event resource_type cb registry =
     registry @ [(event, resource_type, cb)]"

fun notify_event_callbacks ::
    "'d listeners \<Rightarrow> string \<Rightarrow> string \<Rightarrow> action \<Rightarrow> dict \<Rightarrow> (unit, 'd world) comp" where
  "notify_event_callbacks [] service resource_type operation payload = ret ()"
| "notify_event_callbacks ((event, rt, cb) # rest) service resource_type operation payload =
     (if event = operation \<and> rt = resource_type
      then seq (cb service resource_type operation payload)
             (\<lambda>_. notify_event_callbacks rest service resource_type operation payload)
      else notify_event_callbacks rest service resource_type operation payload)"

text \<open>\<open>_register_callback_listeners\<close>.\<close>

definition register_callback_listeners :: "'d env \<Rightarrow> 'd listeners \<Rightarrow> 'd listeners" where
  "register_callback_listeners env registry =
     register_event_callback ACTIONS_internal (INVALIDATE_USER_PROJECT_TOKEN_PERSISTENCE env)
       (delete_app_creds_on_assignment_removal env)
       (register_event_callback ACTIONS_disabled ''user''
          (delete_app_creds_on_user_delete_callback env)
          (register_event_callback ACTIONS_deleted ''user''
             (delete_app_creds_on_user_delete_callback env) registry))"

subsection \<open>An in-memory store driver\<close>

text \<open>
  Modelled from the spec: the in-memory reference implementation of the store driver
  contract (no backend is among the sources). Records are kept by id. \<open>create\<close>
  replaces the plaintext secret by its hash (the hashing primitive is the parameter
  \<open>hash\<close>), keeps the ids of the roles in their order and returns the stored record;
  \<open>get\<close> and \<open>delete\<close> fail with not-found for an unknown id; \<open>authenticate\<close>
  fails in the same way for an unknown id and for a wrong secret; the two bulk deletes
  remove the records of a user, or of a user on a project, and always succeed.
\<close>

type_synonym mem = "(val \<times> dict) list"

fun role_refs :: "val list \<Rightarrow> error + val list" where
  "role_refs [] = Inr []"
| "role_refs (role # rest) =
     (case val_getitem role ''id'' of
        Inl e \<Rightarrow> Inl e
      | Inr rid \<Rightarrow>
          (case role_refs rest of
             Inl e \<Rightarrow> Inl e
           | Inr refs \<Rightarrow> Inr (Dict [(''id'', rid)] # refs)))"

definition mem_authenticate :: "(val \<Rightarrow> val) \<Rightarrow> val \<Rightarrow> val \<Rightarrow> (unit, mem) comp" where
  "mem_authenticate hash cid secret m =
     (case map_of m cid of
        None \<Rightarrow> (Inl (Unauthorized ''Invalid application credential ID or secret''), m)
      | Some stored \<Rightarrow>
          if map_of stored ''secret_hash'' = Some (hash secret) then (Inr (), m)
          else (Inl (Unauthorized ''Invalid application credential ID or secret''), m))"

definition mem_create :: "(val \<Rightarrow> val) \<Rightarrow> dict \<Rightarrow> val \<Rightarrow> (dict, mem) comp" where
  "mem_create hash record roles =
     seq (lift (dict_getitem record ''id'')) (\<lambda>cid.
     seq (lift (dict_getitem record ''secret'')) (\<lambda>secret.
     seq (lift (py_iter roles)) (\<lambda>role_list.
     seq (lift (role_refs role_list)) (\<lambda>refs.
       let stored = AList.update ''roles'' (Lst refs)
                      (AList.update ''secret_hash'' (hash secret)
                         (AList.delete ''secret'' record))
       in (\<lambda>m. (Inr stored, AList.update cid stored m))))))"

definition mem_get :: "val \<Rightarrow> (dict, mem) comp" where
  "mem_get cid m =
     (case map_of m cid of
        None \<Rightarrow> (Inl (ApplicationCredentialNotFound cid), m)
      | Some stored \<Rightarrow> (Inr stored, m))"

text \<open>A filter of the hints is a dictionary with a \<open>name\<close> and a \<open>value\<close>; a record
  passes when it holds that value under that name.\<close>

fun passes :: "dict \<Rightarrow> val \<Rightarrow> bool" where
  "passes stored (Dict f) =
     (case map_of f ''name'' of
        Some (Str k) \<Rightarrow> map_of stored k = map_of f ''value''
      | _ \<Rightarrow> True)"
| "passes stored _ = True"

fun mem_list_for_user :: "val \<Rightarrow> hints \<Rightarrow> (dict list, mem) comp" where
  "mem_list_for_user user_id (Hints filters) m =
     (Inr (filter (\<lambda>stored. map_of stored ''user_id'' = Some user_id
                      \<and> list_all (passes stored) filters) (map snd m)), m)"

definition mem_delete :: "val \<Rightarrow> (unit, mem) comp" where
  "mem_delete cid m =
     (case map_of m cid of
        None \<Rightarrow> (Inl (ApplicationCredentialNotFound cid), m)
      | Some stored \<Rightarrow> (Inr (), AList.delete cid m))"

definition mem_delete_for_user :: "val \<Rightarrow> (unit, mem) comp" where
  "mem_delete_for_user user_id m =
     (Inr (), filter (\<lambda>(cid, stored). map_of stored ''user_id'' \<noteq> Some user_id) m)"

definition mem_delete_for_user_on_project :: "val \<Rightarrow> val \<Rightarrow> (unit, mem) comp" where
  "mem_delete_for_user_on_project user_id project_id m =
     (Inr (), filter (\<lambda>(cid, stored). \<not> (map_of stored ''user_id'' = Some user_id
                                       \<and> map_of stored ''project_id'' = Some project_id)) m)"

definition mem_driver :: "(val \<Rightarrow> val) \<Rightarrow> mem driver" where
  "mem_driver hash =
     \<lparr>drv_authenticate = mem_authenticate hash,
      drv_create_application_credential = mem_create hash,
      drv_get_application_credential = mem_get,
      drv_list_application_credentials_for_user = mem_list_for_user,
      drv_delete_application_credential = mem_delete,
      drv_delete_application_credentials_for_user = mem_delete_for_user,
      drv_delete_application_credentials_for_user_on_project = mem_delete_for_user_on_project\<rparr>"

section \<open>An example deployment\<close>

text \<open>
  A deployment to run the operations on: the identity backend knows the user \<open>alice\<close>
  in the default domain, kerberos binding is enabled, \<open>alice\<close> holds the role
  \<open>member\<close> on project \<open>p1\<close>, and the role API knows the roles \<open>member\<close> and
  \<open>admin\<close>.
\<close>

definition example_auth_env :: auth_env where
  "example_auth_env =
     \<lparr>get_user_by_name = (\<lambda>name domain_id.
          if name = Some ''alice'' \<and> domain_id = Str ''default''
          then Inr [(''id'', Str ''u1''), (''name'', Str ''alice'')]
          else Inl (UserNotFound (fmt_s name))),
      get_domain_by_name = (\<lambda>name. Inl (DomainNotFound (fmt_s name))),
      default_domain_id = ''default'',
      token_bind = [''kerberos'']\<rparr>"

definition example_request :: "string \<Rightarrow> string option \<Rightarrow> request" where
  "example_request user mechanism =
     \<lparr>remote_user = Some user, remote_domain = None, auth_type = mechanism\<rparr>"

definition example_hash :: "val \<Rightarrow> val" where
  "example_hash secret = Lst [Str ''hash'', secret]"

definition example_env :: "mem env" where
  "example_env =
     \<lparr>driver = mem_driver example_hash,
      list_role_assignments = (\<lambda>user_id project_id.
          if user_id = Str ''alice'' \<and> project_id = Str ''p1''
          then [\<lparr>assignment_user_id = user_id, assignment_project_id = project_id,
                 assignment_role_id = Str ''member''\<rparr>]
          else []),
      get_role = (\<lambda>rid.
          if rid = Str ''member'' then Inr (Dict [(''id'', rid), (''name'', Str ''Member'')])
          else if rid = Str ''admin'' then Inr (Dict [(''id'', rid), (''name'', Str ''Admin'')])
          else Inl (RoleNotFound rid)),
      INVALIDATE_USER_PROJECT_TOKEN_PERSISTENCE = ''invalidate_user_project_tokens''\<rparr>"

definition example_credential :: "string \<Rightarrow> string \<Rightarrow> string list \<Rightarrow> dict" where
  "example_credential cid project role_ids =
     [(''id'', Str cid), (''name'', Str ''ci''), (''user_id'', Str ''alice''),
      (''project_id'', Str project), (''secret'', Str ''s3cret''),
      (''roles'', Lst (map (\<lambda>rid. Dict [(''id'', Str rid)]) role_ids))]"

text \<open>A record as the in-memory driver keeps it.\<close>

definition example_record :: "string \<Rightarrow> string \<Rightarrow> dict" where
  "example_record cid project =
     [(''id'', Str cid), (''name'', Str ''ci''), (''user_id'', Str ''alice''),
      (''project_id'', Str project), (''secret_hash'', example_hash (Str ''s3cret'')),
      (''roles'', Lst [Dict [(''id'', Str ''member'')]])]"

definition example_world :: "dict list \<Rightarrow> mem \<Rightarrow> mem world" where
  "example_world objects records =
     \<lparr>heap = objects, driver_state = records, memo = [], trace = []\<rparr>"

section \<open>Properties of the external authentication plugins\<close>

lemma lower_Negotiate: "lower ''Negotiate'' = ''negotiate''"
  by (simp add: lower_def lower_char_def)

text \<open>
  Claim C6. \<open>Base.authenticate\<close> raises \<open>Unauthorized\<close> exactly when the request has
  no remote user or the resolution of the variant raises; in the second case the
  exception of the resolution is dropped and an \<open>Unauthorized\<close> whose message names only
  the remote user is raised in its place.
\<close>

theorem authenticate_unauthorized_iff:
  "((\<exists>m. fst (Base_authenticate env resolve req t) = Inl (Unauthorized m))
      \<longleftrightarrow> (falsy (remote_user req) \<or> (\<exists>e. fst (resolve req t) = Inl e)))
   \<and> (\<forall>e. \<not> falsy (remote_user req) \<and> fst (resolve req t) = Inl e \<longrightarrow>
          fst (Base_authenticate env resolve req t) =
            Inl (Unauthorized (''Unable to lookup user '' @ fmt_s (remote_user req))))"
  by (cases "resolve req t"; cases "fst (resolve req t)")
     (auto simp: Base_authenticate_def seq_def ret_def raise_def lift_def dict_getitem_def Let_def
           split: option.splits sum.splits prod.splits)

theorem authenticate_unauthorized_iff_witness:
  "\<not> falsy (remote_user (example_request ''bob'' None))
   \<and> fst (DefaultDomain_authenticate example_auth_env (example_request ''bob'' None) []) =
       Inl (UserNotFound ''bob'')
   \<and> fst (Base_authenticate example_auth_env (DefaultDomain_authenticate example_auth_env)
           (example_request ''bob'' None) []) =
       Inl (Unauthorized ''Unable to lookup user bob'')"
proof -
  have nf: "\<not> falsy (remote_user (example_request ''bob'' None))"
    by (simp add: example_request_def)
  have fails: "fst (DefaultDomain_authenticate example_auth_env (example_request ''bob'' None) []) =
                 Inl (UserNotFound ''bob'')"
    by (simp add: DefaultDomain_authenticate_def identity_get_user_by_name_def
          example_auth_env_def example_request_def)
  from authenticate_unauthorized_iff
         [of example_auth_env "DefaultDomain_authenticate example_auth_env"
             "example_request ''bob'' None" "[]"]
  have "fst (Base_authenticate example_auth_env (DefaultDomain_authenticate example_auth_env)
               (example_request ''bob'' None) []) =
          Inl (Unauthorized (''Unable to lookup user '' @ fmt_s (remote_user (example_request ''bob'' None))))"
    using nf fails by blast
  then show ?thesis
    using nf fails by (simp add: example_request_def)
qed

text \<open>
  Claim C7. With the \<open>KerberosDomain\<close> variant, a request whose \<open>auth_type\<close> is not
  \<open>Negotiate\<close> fails with \<open>Unauthorized\<close>, and no lookup of a user or of a domain is
  made: the log of lookups is the one before the call.
\<close>

theorem kerberos_requires_negotiate:
  "auth_type req \<noteq> Some ''Negotiate'' \<Longrightarrow>
     (\<exists>m. fst (Base_authenticate env (KerberosDomain_authenticate env) req t) =
            Inl (Unauthorized m))
     \<and> snd (Base_authenticate env (KerberosDomain_authenticate env) req t) = t"
  by (simp add: Base_authenticate_def KerberosDomain_authenticate_def raise_def)

theorem kerberos_requires_negotiate_witness:
  "auth_type (example_request ''alice'' (Some ''Basic'')) \<noteq> Some ''Negotiate''
   \<and> fst (Base_authenticate example_auth_env (KerberosDomain_authenticate example_auth_env)
           (example_request ''alice'' (Some ''Basic'')) []) =
       Inl (Unauthorized ''Unable to lookup user alice'')
   \<and> snd (Base_authenticate example_auth_env (KerberosDomain_authenticate example_auth_env)
           (example_request ''alice'' (Some ''Basic'')) []) = []"
proof -
  have basic: "auth_type (example_request ''alice'' (Some ''Basic'')) \<noteq> Some ''Negotiate''"
    by (simp add: example_request_def)
  from kerberos_requires_negotiate [OF basic, of example_auth_env "[]"]
  have "snd (Base_authenticate example_auth_env (KerberosDomain_authenticate example_auth_env)
               (example_request ''alice'' (Some ''Basic'')) []) = []"
    by blast
  then show ?thesis
    using basic
    by (simp add: Base_authenticate_def KerberosDomain_authenticate_def raise_def
          example_request_def)
qed

text \<open>
  Claim C8. When \<open>Base.authenticate\<close> returns, the resolution returned a user
  reference, the response data holds the \<open>id\<close> of that reference under \<open>user_id\<close>,
  and it holds the \<open>name\<close> of that reference under \<open>bind\<close>/\<open>kerberos\<close> exactly when
  \<open>kerberos\<close> is in the token bind configuration and the lower-cased \<open>auth_type\<close> of
  the request is \<open>negotiate\<close>; otherwise it has no \<open>bind\<close> entry.
\<close>

theorem authenticate_response:
  assumes "Base_authenticate env resolve req t = (Inr resp, t')"
  shows "\<exists>user_ref uid. resolve req t = (Inr user_ref, t')
           \<and> map_of user_ref ''id'' = Some uid
           \<and> map_of (response_data resp) ''user_id'' = Some uid
           \<and> (if ''kerberos'' \<in> set (token_bind env)
                  \<and> lower (or_empty (auth_type req)) = ''negotiate''
               then \<exists>name. map_of user_ref ''name'' = Some name
                      \<and> map_of (response_data resp) ''bind'' = Some (Dict [(''kerberos'', name)])
               else map_of (response_data resp) ''bind'' = None)"
  using assms
  by (cases "resolve req t"; cases "fst (resolve req t)")
     (auto simp: Base_authenticate_def seq_def ret_def raise_def lift_def dict_getitem_def Let_def
           split: option.splits sum.splits prod.splits if_splits)

theorem authenticate_response_witness:
  "Base_authenticate example_auth_env (KerberosDomain_authenticate example_auth_env)
     (example_request ''alice'' (Some ''Negotiate'')) [] =
     (Inr \<lparr>status = True, response_body = NoneV,
           response_data = [(''user_id'', Str ''u1''),
                            (''bind'', Dict [(''kerberos'', Str ''alice'')])]\<rparr>,
      [UserLookup (Some ''alice'') (Str ''default'')])
   \<and> ''kerberos'' \<in> set (token_bind example_auth_env)
   \<and> lower (or_empty (auth_type (example_request ''alice'' (Some ''Negotiate'')))) = ''negotiate''
   \<and> (\<exists>user_ref name.
         KerberosDomain_authenticate example_auth_env
           (example_request ''alice'' (Some ''Negotiate'')) [] =
           (Inr user_ref, [UserLookup (Some ''alice'') (Str ''default'')])
         \<and> map_of user_ref ''name'' = Some name
         \<and> map_of [(''user_id'', Str ''u1''), (''bind'', Dict [(''kerberos'', Str ''alice'')])]
              ''bind'' = Some (Dict [(''kerberos'', name)]))"
proof -
  have run: "Base_authenticate example_auth_env (KerberosDomain_authenticate example_auth_env)
     (example_request ''alice'' (Some ''Negotiate'')) [] =
     (Inr \<lparr>status = True, response_body = NoneV,
           response_data = [(''user_id'', Str ''u1''),
                            (''bind'', Dict [(''kerberos'', Str ''alice'')])]\<rparr>,
      [UserLookup (Some ''alice'') (Str ''default'')])"
    by (simp add: Base_authenticate_def KerberosDomain_authenticate_def Domain_authenticate_def
          identity_get_user_by_name_def example_auth_env_def example_request_def
          seq_def ret_def lift_def dict_getitem_def lower_Negotiate)
  have cond: "''kerberos'' \<in> set (token_bind example_auth_env)
     \<and> lower (or_empty (auth_type (example_request ''alice'' (Some ''Negotiate'')))) = ''negotiate''"
    by (simp add: example_auth_env_def example_request_def lower_Negotiate)
  from authenticate_response [OF run] cond
  show ?thesis
    using run by auto
qed

section \<open>Properties of the manager\<close>

subsection \<open>The role check\<close>

lemma require_roles_missing:
  assumes "list_all2 (\<lambda>role rid. val_getitem role ''id'' = Inr rid) roles ids"
      and "find (\<lambda>rid. rid \<notin> set user_roles) ids = Some missing"
  shows "require_roles user_roles roles u p = Inl (RoleAssignmentNotFound missing u p)"
  using assms
  by (induction rule: list_all2_induct)
     (auto simp: matching_roles_def filter_empty_conv split: if_splits)

lemma require_roles_held:
  assumes "list_all2 (\<lambda>role rid. val_getitem role ''id'' = Inr rid) roles ids"
      and "set ids \<subseteq> set user_roles"
  shows "require_roles user_roles roles u p = Inr ()"
  using assms
  by (induction rule: list_all2_induct)
     (auto simp: matching_roles_def filter_empty_conv split: if_splits)

lemma require_user_has_role_in_project_eq:
  "require_user_has_role_in_project env (Lst roles) u p s =
     (require_roles (remdups (map assignment_role_id (list_role_assignments env u p))) roles u p,
      s\<lparr>trace := trace s @ [ListRoleAssignments u p]\<rparr>)"
  by (simp add: require_user_has_role_in_project_def get_user_roles_def seq_def lift_def)

subsection \<open>Role expansion and the projection\<close>

lemma get_role_list_loop_iff:
  "get_role_list_loop env rs acc = Inr objs' \<longleftrightarrow>
     (\<exists>objs. list_all2 (expands_to env) rs objs \<and> objs' = acc @ objs)"
proof (induction rs arbitrary: acc)
  case Nil
  then show ?case by auto
next
  case (Cons r rs)
  show ?case
    by (cases "val_getitem r ''id''"; cases "get_role env (projr (val_getitem r ''id''))")
       (auto simp: Cons.IH expands_to_def list_all2_Cons1)
qed

lemma get_role_list_Lst:
  "get_role_list env (Lst rs) = Inr objs \<longleftrightarrow> list_all2 (expands_to env) rs objs"
  by (simp add: get_role_list_def get_role_list_loop_iff)

lemma process_app_cred_eq:
  assumes "a < length (heap s)"
      and "map_of (heap s ! a) ''secret_hash'' = Some h"
      and "map_of (heap s ! a) ''roles'' = Some rs"
      and "get_role_list env rs = Inr objs"
  shows "process_app_cred env a s =
           (Inr (length (heap s)),
            s\<lparr>heap := heap s @ [AList.update ''roles'' (Lst objs)
                                  (AList.delete ''secret_hash'' (heap s ! a))]\<rparr>)"
  using assms
  by (simp add: process_app_cred_def copy_dict_def pop_def getitem_def setitem_def seq_def
        ret_def lift_def dict_getitem_def delete_conv')

subsection \<open>Creation\<close>

lemma create_application_credential_eq:
  assumes "heap s ! application_credential = request"
      and "map_of request ''user_id'' = Some user_id"
      and "map_of request ''project_id'' = Some project_id"
      and "map_of request ''secret'' = Some secret"
      and "map_of request ''id'' = Some cid"
      and "map_of request ''roles'' = Some (Lst roles)"
      and "list_all2 (\<lambda>role rid. val_getitem role ''id'' = Inr rid) roles ids"
      and "set ids \<subseteq> assignment_role_id ` set (list_role_assignments env user_id project_id)"
      and "drv_create_application_credential (driver env) (AList.delete ''roles'' request)
             (Lst roles) (driver_state s) = (Inr stored, d')"
      and "map_of stored ''secret_hash'' = Some h"
      and "map_of stored ''roles'' = Some stored_roles"
      and "get_role_list env stored_roles = Inr objs"
  shows "create_application_credential env application_credential initiator s =
           (Inr (length (heap s) + 2),
            s\<lparr>heap := heap s @
                 [AList.delete ''roles'' request,
                  AList.update ''secret'' secret stored,
                  AList.update ''roles'' (Lst objs)
                    (AList.delete ''secret_hash'' (AList.update ''secret'' secret stored))],
              driver_state := d',
              trace := trace s @
                 [ListRoleAssignments user_id project_id,
                  DriverCreate (AList.delete ''roles'' request) (Lst roles),
                  AuditCreated APP_CRED cid initiator]\<rparr>)"
proof -
  have held: "require_roles (remdups (map assignment_role_id
                 (list_role_assignments env user_id project_id))) roles user_id project_id = Inr ()"
    using assms(7,8) by (intro require_roles_held) auto
  let ?s3 = "s\<lparr>driver_state := d',
               trace := trace s @ [ListRoleAssignments user_id project_id,
                  DriverCreate (AList.delete ''roles'' request) (Lst roles)],
               heap := heap s @ [AList.delete ''roles'' request,
                                   AList.update ''secret'' secret stored]\<rparr>"
  have p: "process_app_cred env (Suc (length (heap s))) ?s3 =
           (Inr (length (heap ?s3)),
            ?s3\<lparr>heap := heap ?s3 @ [AList.update ''roles'' (Lst objs)
               (AList.delete ''secret_hash'' (heap ?s3 ! Suc (length (heap s))))]\<rparr>)"
    using assms(10-12) by (intro process_app_cred_eq[where h = h and rs = stored_roles])
      (simp_all add: nth_append update_conv')
  show ?thesis
    using assms(1-6,9) held p
    by (simp add: create_application_credential_def copy_dict_def getitem_def pop_default_def
          dict_getitem_def seq_def require_user_has_role_in_project_eq call_driver_def
          new_dict_def setitem_def delete_conv' nth_append Audit_created_def ret_def)
qed

text \<open>
  Claim C1. When the request names a role that the user does not hold on the project,
  \<open>create_application_credential\<close> raises \<open>RoleAssignmentNotFound\<close> with the id of the
  first such role, the user as actor and the project as target; the only request made to a
  collaborator is the query of the role assignments, so the driver's create is not called
  and the driver's state is the one before the call.
\<close>

theorem create_without_role:
  assumes "map_of (heap s ! application_credential) ''user_id'' = Some user_id"
      and "map_of (heap s ! application_credential) ''project_id'' = Some project_id"
      and "map_of (heap s ! application_credential) ''roles'' = Some (Lst roles)"
      and "list_all2 (\<lambda>role rid. val_getitem role ''id'' = Inr rid) roles ids"
      and "find (\<lambda>rid. rid \<notin> assignment_role_id ` set (list_role_assignments env user_id project_id))
             ids = Some missing"
  shows "fst (create_application_credential env application_credential initiator s) =
           Inl (RoleAssignmentNotFound missing user_id project_id)
         \<and> driver_state (snd (create_application_credential env application_credential initiator s))
             = driver_state s
         \<and> trace (snd (create_application_credential env application_credential initiator s))
             = trace s @ [ListRoleAssignments user_id project_id]"
proof -
  let ?ur = "remdups (map assignment_role_id (list_role_assignments env user_id project_id))"
  have "find (\<lambda>rid. rid \<notin> set ?ur) ids = Some missing"
    using assms(5) by simp
  then have "require_roles ?ur roles user_id project_id =
               Inl (RoleAssignmentNotFound missing user_id project_id)"
    using assms(4) by (rule require_roles_missing[rotated])
  then show ?thesis
    using assms(1-3)
    by (simp add: create_application_credential_def copy_dict_def getitem_def pop_default_def
          dict_getitem_def seq_def require_user_has_role_in_project_eq)
qed

theorem create_without_role_witness:
  "fst (create_application_credential example_env 0 NoneV
          (example_world [example_credential ''c1'' ''p1'' [''member'', ''admin'']] [])) =
     Inl (RoleAssignmentNotFound (Str ''admin'') (Str ''alice'') (Str ''p1''))
   \<and> driver_state (snd (create_application_credential example_env 0 NoneV
          (example_world [example_credential ''c1'' ''p1'' [''member'', ''admin'']] []))) = []
   \<and> trace (snd (create_application_credential example_env 0 NoneV
          (example_world [example_credential ''c1'' ''p1'' [''member'', ''admin'']] []))) =
       [ListRoleAssignments (Str ''alice'') (Str ''p1'')]"
proof -
  let ?s = "example_world [example_credential ''c1'' ''p1'' [''member'', ''admin'']] []"
  have u: "map_of (heap ?s ! 0) ''user_id'' = Some (Str ''alice'')"
    and p: "map_of (heap ?s ! 0) ''project_id'' = Some (Str ''p1'')"
    and r: "map_of (heap ?s ! 0) ''roles'' =
              Some (Lst [Dict [(''id'', Str ''member'')], Dict [(''id'', Str ''admin'')]])"
    by (simp_all add: example_world_def example_credential_def)
  have ids: "list_all2 (\<lambda>role rid. val_getitem role ''id'' = Inr rid)
               [Dict [(''id'', Str ''member'')], Dict [(''id'', Str ''admin'')]]
               [Str ''member'', Str ''admin'']"
    by (simp add: dict_getitem_def)
  have missing: "find (\<lambda>rid. rid \<notin> assignment_role_id `
                    set (list_role_assignments example_env (Str ''alice'') (Str ''p1'')))
                  [Str ''member'', Str ''admin''] = Some (Str ''admin'')"
    by (simp add: example_env_def)
  from create_without_role [OF u p r ids missing, of NoneV]
  show ?thesis
    by (simp add: example_world_def)
qed

text \<open>
  Claim C3. When the user holds every requested role, the driver's create succeeds and
  the stored record carries a hash and role references that the role API knows,
  \<open>create_application_credential\<close> returns a projection that carries the caller's
  plaintext secret, has no \<open>secret_hash\<close>, has the role objects in place of the role
  references and agrees with the stored record on every other key; the requests made are
  the role query, the driver's create and the \<open>created\<close> audit event, in this order,
  and the driver's state is the one that its create left.
\<close>

theorem create_success:
  assumes "heap s ! application_credential = request"
      and "map_of request ''user_id'' = Some user_id"
      and "map_of request ''project_id'' = Some project_id"
      and "map_of request ''secret'' = Some secret"
      and "map_of request ''id'' = Some cid"
      and "map_of request ''roles'' = Some (Lst roles)"
      and "list_all2 (\<lambda>role rid. val_getitem role ''id'' = Inr rid) roles ids"
      and "set ids \<subseteq> assignment_role_id ` set (list_role_assignments env user_id project_id)"
      and "drv_create_application_credential (driver env) (AList.delete ''roles'' request)
             (Lst roles) (driver_state s) = (Inr stored, d')"
      and "map_of stored ''secret_hash'' = Some h"
      and "map_of stored ''roles'' = Some (Lst stored_roles)"
      and "list_all2 (expands_to env) stored_roles objs"
  shows "\<exists>ref s'. create_application_credential env application_credential initiator s = (Inr ref, s')
           \<and> driver_state s' = d'
           \<and> trace s' = trace s @
                [ListRoleAssignments user_id project_id,
                 DriverCreate (AList.delete ''roles'' request) (Lst roles),
                 AuditCreated APP_CRED cid initiator]
           \<and> ref < length (heap s')
           \<and> map_of (heap s' ! ref) ''secret'' = Some secret
           \<and> map_of (heap s' ! ref) ''secret_hash'' = None
           \<and> map_of (heap s' ! ref) ''roles'' = Some (Lst objs)
           \<and> (\<forall>k. k \<notin> {''secret'', ''secret_hash'', ''roles''} \<longrightarrow>
                  map_of (heap s' ! ref) k = map_of stored k)"
proof -
  have "get_role_list env (Lst stored_roles) = Inr objs"
    using assms(12) by (simp add: get_role_list_Lst)
  from create_application_credential_eq [OF assms(1-11) this, of initiator]
  show ?thesis
    by (simp add: nth_append update_conv' delete_conv')
qed

theorem create_success_witness:
  "\<exists>ref s'. create_application_credential example_env 0 (Str ''alice'')
          (example_world [example_credential ''c1'' ''p1'' [''member'']] []) = (Inr ref, s')
     \<and> trace s' =
         [ListRoleAssignments (Str ''alice'') (Str ''p1''),
          DriverCreate (AList.delete ''roles'' (example_credential ''c1'' ''p1'' [''member'']))
            (Lst [Dict [(''id'', Str ''member'')]]),
          AuditCreated APP_CRED (Str ''c1'') (Str ''alice'')]
     \<and> map_of (heap s' ! ref) ''secret'' = Some (Str ''s3cret'')
     \<and> map_of (heap s' ! ref) ''secret_hash'' = None
     \<and> map_of (heap s' ! ref) ''roles'' =
         Some (Lst [Dict [(''id'', Str ''member''), (''name'', Str ''Member'')]])
     \<and> map_of (heap s' ! ref) ''user_id'' = Some (Str ''alice'')"
proof -
  let ?req = "example_credential ''c1'' ''p1'' [''member'']"
  let ?s = "example_world [?req] []"
  let ?stored = "AList.update ''roles'' (Lst [Dict [(''id'', Str ''member'')]])
                   (AList.update ''secret_hash'' (example_hash (Str ''s3cret''))
                      (AList.delete ''secret'' (AList.delete ''roles'' ?req)))"
  have a1: "heap ?s ! 0 = ?req"
    by (simp add: example_world_def)
  have a2: "map_of ?req ''user_id'' = Some (Str ''alice'')"
    and a3: "map_of ?req ''project_id'' = Some (Str ''p1'')"
    and a4: "map_of ?req ''secret'' = Some (Str ''s3cret'')"
    and a5: "map_of ?req ''id'' = Some (Str ''c1'')"
    and a6: "map_of ?req ''roles'' = Some (Lst [Dict [(''id'', Str ''member'')]])"
    by (simp_all add: example_credential_def)
  have a7: "list_all2 (\<lambda>role rid. val_getitem role ''id'' = Inr rid)
              [Dict [(''id'', Str ''member'')]] [Str ''member'']"
    by (simp add: dict_getitem_def)
  have a8: "set [Str ''member''] \<subseteq> assignment_role_id `
              set (list_role_assignments example_env (Str ''alice'') (Str ''p1''))"
    by (simp add: example_env_def)
  have a9: "drv_create_application_credential (driver example_env) (AList.delete ''roles'' ?req)
              (Lst [Dict [(''id'', Str ''member'')]]) (driver_state ?s) =
              (Inr ?stored, [(Str ''c1'', ?stored)])"
    by (simp add: example_env_def mem_driver_def mem_create_def example_world_def
          example_credential_def seq_def lift_def dict_getitem_def Let_def)
  have a10: "map_of ?stored ''secret_hash'' = Some (example_hash (Str ''s3cret''))"
    and a11: "map_of ?stored ''roles'' = Some (Lst [Dict [(''id'', Str ''member'')]])"
    by (simp_all add: update_conv')
  have a12: "list_all2 (expands_to example_env) [Dict [(''id'', Str ''member'')]]
               [Dict [(''id'', Str ''member''), (''name'', Str ''Member'')]]"
    by (simp add: expands_to_def dict_getitem_def example_env_def)
  from create_success [OF a1 a2 a3 a4 a5 a6 a7 a8 a9 a10 a11 a12, of "Str ''alice''"]
  obtain ref s' where
    run: "create_application_credential example_env 0 (Str ''alice'') ?s = (Inr ref, s')"
    and rest: "trace s' = trace ?s @
                [ListRoleAssignments (Str ''alice'') (Str ''p1''),
                 DriverCreate (AList.delete ''roles'' ?req) (Lst [Dict [(''id'', Str ''member'')]]),
                 AuditCreated APP_CRED (Str ''c1'') (Str ''alice'')]"
       "map_of (heap s' ! ref) ''secret'' = Some (Str ''s3cret'')"
       "map_of (heap s' ! ref) ''secret_hash'' = None"
       "map_of (heap s' ! ref) ''roles'' =
          Some (Lst [Dict [(''id'', Str ''member''), (''name'', Str ''Member'')]])"
       "\<forall>k. k \<notin> {''secret'', ''secret_hash'', ''roles''} \<longrightarrow>
                  map_of (heap s' ! ref) k = map_of ?stored k"
    by blast
  have "map_of (heap s' ! ref) ''user_id'' = Some (Str ''alice'')"
    using rest(5) by (simp add: update_conv' delete_conv' example_credential_def)
  with run rest show ?thesis
    by (auto simp add: example_world_def)
qed

lemma process_app_cred_frame:
  "\<exists>new. snd (process_app_cred env a s) = s\<lparr>heap := heap s @ [new]\<rparr>"
  by (auto simp: process_app_cred_def copy_dict_def pop_def getitem_def setitem_def seq_def
        ret_def lift_def dict_getitem_def
      split: option.splits sum.splits)

lemma require_no_roles:
  "require_user_has_role_in_project env (Lst []) u p w =
     (Inr (), w\<lparr>trace := trace w @ [ListRoleAssignments u p]\<rparr>)"
  by (simp add: require_user_has_role_in_project_eq)

text \<open>
  Claim C9. The role check on an empty role list succeeds for every user and project and
  makes one query of the role assignments. For a request without a \<open>roles\<close> key or
  with an empty role list, \<open>create_application_credential\<close> makes that one query,
  then calls the driver's create with the empty role list, and the driver's state
  afterwards is the one that this create produced; the only request that can follow is
  the \<open>created\<close> audit event.
\<close>

theorem create_without_roles:
  assumes "heap s ! application_credential = request"
      and "map_of request ''user_id'' = Some user_id"
      and "map_of request ''project_id'' = Some project_id"
      and "map_of request ''secret'' = Some secret"
      and "map_of request ''roles'' = None \<or> map_of request ''roles'' = Some (Lst [])"
  shows "(\<forall>u p w. require_user_has_role_in_project env (Lst []) u p (w :: 'd world) =
            (Inr (), w\<lparr>trace := trace w @ [ListRoleAssignments u p]\<rparr>))
         \<and> (\<exists>rest. trace (snd (create_application_credential env application_credential initiator s)) =
               trace s @ [ListRoleAssignments user_id project_id,
                          DriverCreate (AList.delete ''roles'' request) (Lst [])] @ rest
               \<and> (rest = [] \<or> (\<exists>cid. rest = [AuditCreated APP_CRED cid initiator])))
         \<and> driver_state (snd (create_application_credential env application_credential initiator
               (s :: 'd world))) =
             snd (drv_create_application_credential (driver env) (AList.delete ''roles'' request)
                    (Lst []) (driver_state s))"
proof -
  let ?rec = "AList.delete ''roles'' request"
  obtain r d' where drv: "drv_create_application_credential (driver env) ?rec (Lst [])
                            (driver_state s) = (r, d')"
    by (cases "drv_create_application_credential (driver env) ?rec (Lst []) (driver_state s)")
  let ?s1 = "s\<lparr>heap := heap s @ [?rec],
               driver_state := d',
               trace := trace s @ [ListRoleAssignments user_id project_id,
                                   DriverCreate ?rec (Lst [])]\<rparr>"
  have pre: "create_application_credential env application_credential initiator s =
        (case r of Inl e \<Rightarrow> (Inl e, ?s1)
         | Inr stored \<Rightarrow>
            seq (new_dict stored) (\<lambda>ref0.
            seq (setitem ref0 ''secret'' secret) (\<lambda>_.
            seq (process_app_cred env ref0) (\<lambda>ref.
            seq (getitem (length (heap s)) ''id'') (\<lambda>app_cred_id.
            seq (Audit_created APP_CRED app_cred_id initiator) (\<lambda>_.
            ret ref))))) ?s1)"
  proof (cases "map_of request ''roles''")
    case None
    then have "?rec = request"
      by (simp add: map_of_eq_None_iff)
    with None assms(1-4) drv show ?thesis
      by (cases r)
         (simp_all add: create_application_credential_def copy_dict_def getitem_def
            pop_default_def dict_getitem_def seq_def require_no_roles call_driver_def)
  next
    case (Some v)
    with assms(5) have "v = Lst []"
      by simp
    with Some assms(1-4) drv show ?thesis
      by (cases r)
         (simp_all add: create_application_credential_def copy_dict_def getitem_def
            pop_default_def dict_getitem_def seq_def require_no_roles call_driver_def
            delete_conv')
  qed
  show ?thesis
  proof (cases r)
    case (Inl e)
    then show ?thesis
      using pre drv by (simp add: require_no_roles)
  next
    case (Inr stored)
    let ?s2 = "s\<lparr>driver_state := d',
               trace := trace s @ [ListRoleAssignments user_id project_id,
                                   DriverCreate ?rec (Lst [])],
               heap := heap s @ [?rec, AList.update ''secret'' secret stored]\<rparr>"
    obtain new where fr: "snd (process_app_cred env (Suc (length (heap s))) ?s2) =
                            ?s2\<lparr>heap := heap ?s2 @ [new]\<rparr>"
      using process_app_cred_frame by blast
    obtain pr ps where p: "process_app_cred env (Suc (length (heap s))) ?s2 = (pr, ps)"
      by (cases "process_app_cred env (Suc (length (heap s))) ?s2")
    with fr have ps: "ps = ?s2\<lparr>heap := heap ?s2 @ [new]\<rparr>"
      by simp
    show ?thesis
      using pre drv Inr p ps
      by (cases pr)
         (auto simp: require_no_roles seq_def new_dict_def setitem_def getitem_def
            dict_getitem_def Audit_created_def ret_def nth_append list_update_append
          split: option.splits)
  qed
qed

theorem create_without_roles_witness:
  "(\<exists>rest. trace (snd (create_application_credential example_env 0 NoneV
              (example_world [example_credential ''c2'' ''p9'' []] []))) =
            [ListRoleAssignments (Str ''alice'') (Str ''p9''),
             DriverCreate (AList.delete ''roles'' (example_credential ''c2'' ''p9'' [])) (Lst [])]
            @ rest)
   \<and> map_of (driver_state (snd (create_application_credential example_env 0 NoneV
              (example_world [example_credential ''c2'' ''p9'' []] [])))) (Str ''c2'') =
       Some [(''id'', Str ''c2''), (''name'', Str ''ci''), (''user_id'', Str ''alice''),
             (''project_id'', Str ''p9''), (''secret_hash'', example_hash (Str ''s3cret'')),
             (''roles'', Lst [])]"
proof -
  let ?req = "example_credential ''c2'' ''p9'' []"
  let ?s = "example_world [?req] []"
  have a1: "heap ?s ! 0 = ?req"
    by (simp add: example_world_def)
  have a2: "map_of ?req ''user_id'' = Some (Str ''alice'')"
    and a3: "map_of ?req ''project_id'' = Some (Str ''p9'')"
    and a4: "map_of ?req ''secret'' = Some (Str ''s3cret'')"
    and a5: "map_of ?req ''roles'' = None \<or> map_of ?req ''roles'' = Some (Lst [])"
    by (simp_all add: example_credential_def)
  have stored: "snd (drv_create_application_credential (driver example_env)
                  (AList.delete ''roles'' ?req) (Lst []) (driver_state ?s)) =
                [(Str ''c2'',
                  [(''id'', Str ''c2''), (''name'', Str ''ci''), (''user_id'', Str ''alice''),
                   (''project_id'', Str ''p9''), (''secret_hash'', example_hash (Str ''s3cret'')),
                   (''roles'', Lst [])])]"
    by (simp add: example_env_def mem_driver_def mem_create_def example_world_def
          example_credential_def seq_def lift_def dict_getitem_def Let_def)
  from create_without_roles [OF a1 a2 a3 a4 a5, of example_env NoneV] stored
  show ?thesis
    by (auto simp: example_world_def)
qed

subsection \<open>Reading a credential back\<close>

lemma seq_Inr_iff:
  "seq m f s = (Inr y, s') \<longleftrightarrow> (\<exists>x s0. m s = (Inr x, s0) \<and> f x s0 = (Inr y, s'))"
  by (auto simp: seq_def split: prod.splits sum.splits)

lemma process_app_cred_Inr:
  assumes "process_app_cred env a w = (Inr r, w')"
  shows "\<exists>h rs objs. map_of (heap w ! a) ''secret_hash'' = Some h
           \<and> map_of (heap w ! a) ''roles'' = Some rs
           \<and> get_role_list env rs = Inr objs
           \<and> r = length (heap w)
           \<and> w' = w\<lparr>heap := heap w @ [AList.update ''roles'' (Lst objs)
                                      (AList.delete ''secret_hash'' (heap w ! a))]\<rparr>"
  using assms
  by (auto simp: process_app_cred_def copy_dict_def pop_def getitem_def setitem_def seq_Inr_iff
        ret_def lift_def dict_getitem_def delete_conv'
      split: option.splits sum.splits)

lemma require_user_has_role_in_project_state:
  "require_user_has_role_in_project env roles u p w = (r, w') \<Longrightarrow>
     w' = w\<lparr>trace := trace w @ [ListRoleAssignments u p]\<rparr>"
  by (auto simp: require_user_has_role_in_project_def get_user_roles_def seq_def lift_def
      split: sum.splits)

lemma create_application_credential_Inr:
  assumes "create_application_credential env application_credential initiator s = (Inr ref, s1)"
      and "heap s ! application_credential = request"
  shows "\<exists>user_id project_id secret cid stored d'.
           map_of request ''user_id'' = Some user_id
         \<and> map_of request ''project_id'' = Some project_id
         \<and> map_of request ''secret'' = Some secret
         \<and> map_of request ''id'' = Some cid
         \<and> drv_create_application_credential (driver env) (AList.delete ''roles'' request)
               (case map_of request ''roles'' of None \<Rightarrow> Lst [] | Some v \<Rightarrow> v)
               (driver_state s) = (Inr stored, d')
         \<and> driver_state s1 = d'
         \<and> memo s1 = memo s
         \<and> heap s1 = heap s @ [AList.delete ''roles'' request,
                                 AList.update ''secret'' secret stored,
                                 heap s1 ! ref]
         \<and> ref = length (heap s) + 2
         \<and> (\<exists>h rs objs. map_of stored ''secret_hash'' = Some h
               \<and> map_of stored ''roles'' = Some rs
               \<and> get_role_list env rs = Inr objs
               \<and> heap s1 ! ref = AList.update ''roles'' (Lst objs)
                    (AList.delete ''secret_hash'' (AList.update ''secret'' secret stored)))"
proof (cases "map_of request ''roles''")
  case None
  then have same: "AList.delete ''roles'' request = request"
    by (simp add: map_of_eq_None_iff)
  from assms None show ?thesis
    unfolding same
    by (auto simp: create_application_credential_def copy_dict_def getitem_def pop_default_def
          dict_getitem_def seq_Inr_iff call_driver_def new_dict_def setitem_def
          Audit_created_def ret_def nth_append list_update_append update_conv'
        split: option.splits sum.splits prod.splits dest!: process_app_cred_Inr require_user_has_role_in_project_state)
next
  case (Some v)
  with assms show ?thesis
    by (auto simp: create_application_credential_def copy_dict_def getitem_def pop_default_def
          dict_getitem_def seq_Inr_iff call_driver_def new_dict_def setitem_def
          Audit_created_def ret_def nth_append list_update_append update_conv' delete_conv'
        split: option.splits sum.splits prod.splits dest!: process_app_cred_Inr require_user_has_role_in_project_state)
qed


lemma expands_to_ref:
  "val_getitem role ''id'' = Inr rid \<Longrightarrow>
     expands_to env (Dict [(''id'', rid)]) obj = expands_to env role obj"
  by (simp add: expands_to_def dict_getitem_def)

lemma role_refs_expands:
  assumes "role_refs role_list = Inr refs"
      and "list_all2 (expands_to env) refs objs"
  shows "list_all2 (expands_to env) role_list objs"
  using assms
proof (induction role_list arbitrary: refs objs)
  case Nil
  then show ?case by simp
next
  case (Cons role rest)
  from Cons.prems(1) obtain rid refs' where
        rid: "val_getitem role ''id'' = Inr rid"
    and rest: "role_refs rest = Inr refs'"
    and refs: "refs = Dict [(''id'', rid)] # refs'"
    by (auto split: sum.splits)
  from Cons.prems(2) refs obtain obj objs' where
        objs: "objs = obj # objs'"
    and hd: "expands_to env (Dict [(''id'', rid)]) obj"
    and tl: "list_all2 (expands_to env) refs' objs'"
    by (auto simp: list_all2_Cons1)
  from hd rid have "expands_to env role obj"
    by (simp add: expands_to_ref)
  moreover from Cons.IH [OF rest tl] have "list_all2 (expands_to env) rest objs'" .
  ultimately show ?case
    by (simp add: objs)
qed

lemma mem_create_Inr:
  assumes "mem_create hash record roles m = (Inr stored, m')"
  shows "\<exists>cid secret role_list refs.
           map_of record ''id'' = Some cid
         \<and> map_of record ''secret'' = Some secret
         \<and> py_iter roles = Inr role_list
         \<and> role_refs role_list = Inr refs
         \<and> stored = AList.update ''roles'' (Lst refs)
                      (AList.update ''secret_hash'' (hash secret)
                         (AList.delete ''secret'' record))
         \<and> m' = AList.update cid stored m"
  using assms
  by (auto simp: mem_create_def seq_Inr_iff lift_def dict_getitem_def Let_def
      split: option.splits)

lemma example_create:
  "\<exists>s1. create_application_credential example_env 0 NoneV
           (example_world [example_credential ''c1'' ''p1'' [''member'']] []) = (Inr 3, s1)"
proof -
  let ?req = "example_credential ''c1'' ''p1'' [''member'']"
  let ?s = "example_world [?req] []"
  let ?stored = "AList.update ''roles'' (Lst [Dict [(''id'', Str ''member'')]])
                   (AList.update ''secret_hash'' (example_hash (Str ''s3cret''))
                      (AList.delete ''secret'' (AList.delete ''roles'' ?req)))"
  have a1: "heap ?s ! 0 = ?req"
    by (simp add: example_world_def)
  have a2: "map_of ?req ''user_id'' = Some (Str ''alice'')"
    and a3: "map_of ?req ''project_id'' = Some (Str ''p1'')"
    and a4: "map_of ?req ''secret'' = Some (Str ''s3cret'')"
    and a5: "map_of ?req ''id'' = Some (Str ''c1'')"
    and a6: "map_of ?req ''roles'' = Some (Lst [Dict [(''id'', Str ''member'')]])"
    by (simp_all add: example_credential_def)
  have a7: "list_all2 (\<lambda>role rid. val_getitem role ''id'' = Inr rid)
              [Dict [(''id'', Str ''member'')]] [Str ''member'']"
    by (simp add: dict_getitem_def)
  have a8: "set [Str ''member''] \<subseteq> assignment_role_id `
              set (list_role_assignments example_env (Str ''alice'') (Str ''p1''))"
    by (simp add: example_env_def)
  have a9: "drv_create_application_credential (driver example_env) (AList.delete ''roles'' ?req)
              (Lst [Dict [(''id'', Str ''member'')]]) (driver_state ?s) =
              (Inr ?stored, [(Str ''c1'', ?stored)])"
    by (simp add: example_env_def mem_driver_def mem_create_def example_world_def
          example_credential_def seq_def lift_def dict_getitem_def Let_def)
  have a10: "map_of ?stored ''secret_hash'' = Some (example_hash (Str ''s3cret''))"
    and a11: "map_of ?stored ''roles'' = Some (Lst [Dict [(''id'', Str ''member'')]])"
    by (simp_all add: update_conv')
  have a12: "get_role_list example_env (Lst [Dict [(''id'', Str ''member'')]]) =
               Inr [Dict [(''id'', Str ''member''), (''name'', Str ''Member'')]]"
    by (simp add: get_role_list_def dict_getitem_def example_env_def)
  from create_application_credential_eq [OF a1 a2 a3 a4 a5 a6 a7 a8 a9 a10 a11 a12, of NoneV]
  show ?thesis
    by (simp add: example_world_def)
qed

text \<open>
  Claim C4. With the in-memory driver, after \<open>create_application_credential\<close> has
  returned for a credential whose id has no entry in the cache, the next
  \<open>get_application_credential\<close> with that id returns a projection with the
  \<open>user_id\<close> and the \<open>project_id\<close> of the request, with the role objects that the
  requested roles expand to (the same list as in the response of the creation), and with
  neither a \<open>secret_hash\<close> nor a \<open>secret\<close> key.
\<close>

theorem create_then_get:
  fixes env :: "mem env"
  assumes "driver env = mem_driver hash"
      and "create_application_credential env application_credential initiator s = (Inr ref, s1)"
      and "map_of (heap s ! application_credential) ''id'' = Some cid"
      and "map_of (memo s) [cid] = None"
  shows "\<exists>got s2 objs supplied.
           get_application_credential env cid s1 = (Inr got, s2)
         \<and> got < length (heap s2)
         \<and> map_of (heap s2 ! got) ''user_id'' = map_of (heap s ! application_credential) ''user_id''
         \<and> map_of (heap s2 ! got) ''project_id'' =
             map_of (heap s ! application_credential) ''project_id''
         \<and> py_iter (case map_of (heap s ! application_credential) ''roles'' of
                       None \<Rightarrow> Lst [] | Some v \<Rightarrow> v) = Inr supplied
         \<and> list_all2 (expands_to env) supplied objs
         \<and> map_of (heap s2 ! got) ''roles'' = Some (Lst objs)
         \<and> map_of (heap s1 ! ref) ''roles'' = Some (Lst objs)
         \<and> map_of (heap s2 ! got) ''secret_hash'' = None
         \<and> map_of (heap s2 ! got) ''secret'' = None"
proof -
  let ?request = "heap s ! application_credential"
  let ?roles = "case map_of ?request ''roles'' of None \<Rightarrow> Lst [] | Some v \<Rightarrow> v"
  from create_application_credential_Inr [OF assms(2) refl] assms(3)
  obtain user_id project_id secret stored d' h rs objs where
        u: "map_of ?request ''user_id'' = Some user_id"
    and p: "map_of ?request ''project_id'' = Some project_id"
    and sec: "map_of ?request ''secret'' = Some secret"
    and drv: "drv_create_application_credential (driver env) (AList.delete ''roles'' ?request)
                ?roles (driver_state s) = (Inr stored, d')"
    and d1: "driver_state s1 = d'"
    and m1: "memo s1 = memo s"
    and rs: "map_of stored ''roles'' = Some rs"
    and objs: "get_role_list env rs = Inr objs"
    and proj: "heap s1 ! ref = AList.update ''roles'' (Lst objs)
                 (AList.delete ''secret_hash'' (AList.update ''secret'' secret stored))"
    by auto
  from drv assms(1) have "mem_create hash (AList.delete ''roles'' ?request) ?roles (driver_state s)
                            = (Inr stored, d')"
    by (simp add: mem_driver_def)
  from mem_create_Inr [OF this] assms(3) sec
  obtain role_list refs where
        it: "py_iter ?roles = Inr role_list"
    and refs: "role_refs role_list = Inr refs"
    and stored: "stored = AList.update ''roles'' (Lst refs)
                   (AList.update ''secret_hash'' (hash secret)
                      (AList.delete ''secret'' (AList.delete ''roles'' ?request)))"
    and d': "d' = AList.update cid stored (driver_state s)"
    by (auto simp: delete_conv')
  from rs stored have rs_eq: "rs = Lst refs"
    by (simp add: update_conv')
  with objs have exp: "list_all2 (expands_to env) refs objs"
    by (simp add: get_role_list_Lst)
  have hsh: "map_of stored ''secret_hash'' = Some (hash secret)"
    and nosec: "map_of stored ''secret'' = None"
    and su: "map_of stored ''user_id'' = Some user_id"
    and sp: "map_of stored ''project_id'' = Some project_id"
    using u p by (simp_all add: stored update_conv' delete_conv')
  have found: "mem_get cid (driver_state s1) = (Inr stored, driver_state s1)"
    by (simp add: mem_get_def d1 d' update_conv')
  let ?s2 = "s1\<lparr>driver_state := driver_state s1, trace := trace s1 @ [DriverGet cid],
               heap := heap s1 @ [stored]\<rparr>"
  have pr: "process_app_cred env (length (heap s1)) ?s2 =
              (Inr (length (heap ?s2)),
               ?s2\<lparr>heap := heap ?s2 @ [AList.update ''roles'' (Lst objs)
                  (AList.delete ''secret_hash'' (heap ?s2 ! length (heap s1)))]\<rparr>)"
    using hsh rs objs
    by (intro process_app_cred_eq [where h = "hash secret" and rs = rs]) simp_all
  have "get_application_credential env cid s1 =
          (Inr (Suc (length (heap s1))),
           s1\<lparr>driver_state := driver_state s1, trace := trace s1 @ [DriverGet cid],
               heap := heap s1 @ [stored, AList.update ''roles'' (Lst objs)
                                    (AList.delete ''secret_hash'' stored)],
               memo := AList.update [cid] (AList.update ''roles'' (Lst objs)
                                    (AList.delete ''secret_hash'' stored)) (memo s1)\<rparr>)"
    using found pr assms(1,4) m1
    by (simp add: get_application_credential_def get_application_credential_body_def memoize_def
          seq_def call_driver_def new_dict_def mem_driver_def nth_append)
  moreover have "list_all2 (expands_to env) role_list objs"
    using refs exp by (rule role_refs_expands)
  ultimately show ?thesis
    using it su sp u p nosec proj
    by (simp add: nth_append update_conv' delete_conv')
qed

theorem create_then_get_witness:
  "\<exists>ref s1 got s2.
      create_application_credential example_env 0 NoneV
        (example_world [example_credential ''c1'' ''p1'' [''member'']] []) = (Inr ref, s1)
    \<and> get_application_credential example_env (Str ''c1'') s1 = (Inr got, s2)
    \<and> map_of (heap s2 ! got) ''user_id'' = Some (Str ''alice'')
    \<and> map_of (heap s2 ! got) ''project_id'' = Some (Str ''p1'')
    \<and> map_of (heap s2 ! got) ''roles'' =
        Some (Lst [Dict [(''id'', Str ''member''), (''name'', Str ''Member'')]])
    \<and> map_of (heap s2 ! got) ''secret_hash'' = None
    \<and> map_of (heap s2 ! got) ''secret'' = None"
proof -
  let ?req = "example_credential ''c1'' ''p1'' [''member'']"
  let ?s = "example_world [?req] []"
  obtain s1 where run: "create_application_credential example_env 0 NoneV ?s = (Inr 3, s1)"
    using example_create by blast
  have drv: "driver example_env = mem_driver example_hash"
    by (simp add: example_env_def)
  have cid: "map_of (heap ?s ! 0) ''id'' = Some (Str ''c1'')"
    by (simp add: example_world_def example_credential_def)
  have miss: "map_of (memo ?s) [Str ''c1''] = None"
    by (simp add: example_world_def)
  from create_then_get [OF drv run cid miss]
  obtain got s2 objs supplied where
        get: "get_application_credential example_env (Str ''c1'') s1 = (Inr got, s2)"
    and u: "map_of (heap s2 ! got) ''user_id'' = map_of (heap ?s ! 0) ''user_id''"
    and p: "map_of (heap s2 ! got) ''project_id'' = map_of (heap ?s ! 0) ''project_id''"
    and it: "py_iter (case map_of (heap ?s ! 0) ''roles'' of None \<Rightarrow> Lst [] | Some v \<Rightarrow> v)
               = Inr supplied"
    and ex: "list_all2 (expands_to example_env) supplied objs"
    and r: "map_of (heap s2 ! got) ''roles'' = Some (Lst objs)"
    and h: "map_of (heap s2 ! got) ''secret_hash'' = None"
    and n: "map_of (heap s2 ! got) ''secret'' = None"
    by blast
  from it have "supplied = [Dict [(''id'', Str ''member'')]]"
    by (simp add: example_world_def example_credential_def)
  with ex have "objs = [Dict [(''id'', Str ''member''), (''name'', Str ''Member'')]]"
    by (auto simp: list_all2_Cons1 expands_to_def dict_getitem_def example_env_def)
  with run get u p r h n show ?thesis
    by (simp add: example_world_def example_credential_def)
qed

end
